theory Spec2Isabelle
  imports Complex_Main
begin

section \<open>JavaScript numbers\<close>

text \<open>
  Progress values, times and opacities are JavaScript numbers. They are modelled as
  real numbers: rounding of binary floating point is abstracted away, and every
  literal of the source denotes the decimal fraction it is written as. The quotient
  of two container dimensions is the one place where the source can divide by zero;
  there the result is written out.
\<close>

datatype jsnum = Num real | Infinity | NaN

text \<open>\<^verbatim>\<open>clientWidth / clientHeight\<close>: both operands are non-negative integers.\<close>

definition js_div :: "nat \<Rightarrow> nat \<Rightarrow> jsnum" where
  "js_div w h = (if h = 0 then (if w = 0 then NaN else Infinity) else Num (real w / real h))"

text \<open>\<^verbatim>\<open>Math.round\<close> rounds to the nearest integer, halves upwards.\<close>

definition Math_round :: "real \<Rightarrow> int" where
  "Math_round x = \<lfloor>x + 1 / 2\<rfloor>"

section \<open>Phase lookup\<close>

text \<open>
  \<^verbatim>\<open>DataTransformScene\<close> derives the phase from the scroll value:
  \<^verbatim>\<open>if (value < 0.35) return 'shrink'; if (value < 0.70) return 'shred'; return 'secure';\<close>
\<close>

definition currentPhase :: "real \<Rightarrow> string" where
  "currentPhase v = (if v < 0.35 then ''shrink'' else if v < 0.70 then ''shred'' else ''secure'')"

text \<open>
  The scroll observer of \<^verbatim>\<open>DataProtectionJourney\<close>: its \<^verbatim>\<open>onUpdate\<close> stores the
  rounded percentage and the stage, draws one frame when renderer, scene and camera are
  there, and hands the progress to the master timeline.
\<close>

record journey_ui =
  scrollProgress :: int
  currentStage :: string
  canDraw :: bool
  drawCalls :: nat
  tl_progress :: real

definition onUpdate :: "real \<Rightarrow> journey_ui \<Rightarrow> journey_ui" where
  "onUpdate p u =
     (let u1 = u\<lparr>scrollProgress := Math_round (p * 100)\<rparr>;
          u2 = (if p < 0.35 then u1\<lparr>currentStage := ''shrink''\<rparr>
                else if p < 0.70 then u1\<lparr>currentStage := ''shred''\<rparr>
                else u1\<lparr>currentStage := ''secure''\<rparr>);
          u3 = (if canDraw u2 then u2\<lparr>drawCalls := Suc (drawCalls u2)\<rparr> else u2)
      in u3\<lparr>tl_progress := p\<rparr>)"

section \<open>The standalone renderer\<close>

text \<open>
  \<^verbatim>\<open>standaloneThreeJS.js\<close> keeps scene, camera, renderer, cube and particles in
  module variables. A module variable that is \<^verbatim>\<open>undefined\<close> or \<^verbatim>\<open>null\<close> is
  \<open>None\<close>. Every object the module creates gets a fresh number, so that identity
  (of scene children, canvases, frame requests and listener closures) can be compared.
\<close>

type_synonym vec3 = "real \<times> real \<times> real"

record PerspectiveCamera =
  fov :: real
  aspect :: jsnum
  position_z :: real

record WebGLRenderer =
  rid :: nat
  domElement :: nat
  r_size :: "nat \<times> nat"
  pixelRatio :: real

text \<open>The cube (a mesh) and the particles (points): geometry, material and transform.\<close>

record Mesh =
  oid :: nat
  geometry :: nat
  material :: nat
  rotation_x :: real
  rotation_y :: real
  m_scale :: vec3
  color :: string

record config =
  cfg_progress :: real
  cfg_currentPhase :: string
  cfg_phaseColors :: "string \<rightharpoonup> string"

text \<open>
  The argument of \<^verbatim>\<open>updateScene\<close>: an object that has any of the three
  configuration keys. Other keys would be copied too and are never read.
\<close>

record options =
  opt_progress :: "real option"
  opt_currentPhase :: "string option"
  opt_phaseColors :: "(string \<rightharpoonup> string) option"

datatype exn = TypeError | RenderError

text \<open>
  A resize listener is either the closure one call of \<^verbatim>\<open>initScene\<close> created (it
  captured that call's container) or the function \<^verbatim>\<open>handleResize\<close> declared at
  module level.
\<close>

datatype listener = InitClosure nat string | ModuleHandleResize

text \<open>
  The module variables, followed by the part of the browser the module talks to: the
  containers of the document with their child elements and client sizes, the resize
  listeners of the window, the pending animation-frame requests, the renderers and
  the geometries and materials that were created and not disposed, the error console,
  and whether a draw call throws (for instance after the graphics context was lost).
\<close>

record world =
  scene :: "nat list option"
  camera :: "PerspectiveCamera option"
  renderer :: "WebGLRenderer option"
  cube :: "Mesh option"
  particles :: "Mesh option"
  animationId :: "nat option"
  isInitialized :: bool
  config :: config
  document :: "(string \<times> nat list) list"
  client :: "string \<Rightarrow> nat \<times> nat"
  devicePixelRatio :: real
  listeners :: "listener list"
  frames :: "nat list"
  liveRenderers :: "nat list"
  liveBuffers :: "nat list"
  console :: "string list"
  drawThrows :: bool
  fresh :: nat

definition initial_config :: config where
  "initial_config =
     \<lparr>cfg_progress = 0, cfg_currentPhase = ''intro'',
      cfg_phaseColors = [''intro'' \<mapsto> ''#0ea5e9'', ''shred'' \<mapsto> ''#3b82f6'',
        ''encrypt'' \<mapsto> ''#6366f1'', ''distribute'' \<mapsto> ''#8b5cf6'',
        ''reassemble'' \<mapsto> ''#a855f7'']\<rparr>"

text \<open>The module right after it was loaded, in a given browser.\<close>

definition loaded :: "(string \<times> nat list) list \<Rightarrow> (string \<Rightarrow> nat \<times> nat) \<Rightarrow> bool \<Rightarrow> world" where
  "loaded doc cl thr =
     \<lparr>scene = None, camera = None, renderer = None, cube = None, particles = None,
      animationId = None, isInitialized = False, config = initial_config,
      document = doc, client = cl, devicePixelRatio = 1, listeners = [], frames = [],
      liveRenderers = [], liveBuffers = [], console = [], drawThrows = thr, fresh = 0\<rparr>"

text \<open>\<^verbatim>\<open>requestAnimationFrame(animate)\<close>, with the result stored in \<^verbatim>\<open>animationId\<close>.\<close>

definition requestAnimationFrame :: "world \<Rightarrow> world" where
  "requestAnimationFrame w =
     w\<lparr>frames := frames w @ [fresh w], animationId := Some (fresh w), fresh := Suc (fresh w)\<rparr>"

definition cancelAnimationFrame :: "nat \<Rightarrow> world \<Rightarrow> world" where
  "cancelAnimationFrame i w = w\<lparr>frames := removeAll i (frames w)\<rparr>"

text \<open>
  The frame callback. It leaves at once unless all five module variables are set;
  otherwise it turns cube and particles, scales the cube by the progress, recolours
  both when the current phase has a colour, draws, and asks for the next frame. The
  random walk of the particle coordinates in the shred phase is not part of the model.
  Nothing is caught: when the draw call throws, the exception leaves the callback and
  the next frame is not requested.
\<close>

definition animate :: "world \<Rightarrow> exn option \<times> world" where
  "animate w =
     (if scene w = None \<or> camera w = None \<or> renderer w = None \<or> cube w = None \<or> particles w = None
      then (None, w)
      else
        let c = the (cube w); p = the (particles w);
            s = max 0.2 (1 - cfg_progress (config w) * 0.8);
            c1 = c\<lparr>rotation_x := rotation_x c + 0.01, rotation_y := rotation_y c + 0.01,
                   m_scale := (s, s, s)\<rparr>;
            p1 = p\<lparr>rotation_x := rotation_x p + 0.001, rotation_y := rotation_y p + 0.002\<rparr>;
            col = cfg_phaseColors (config w) (cfg_currentPhase (config w));
            c2 = (case col of None \<Rightarrow> c1 | Some h \<Rightarrow> if h = [] then c1 else c1\<lparr>color := h\<rparr>);
            p2 = (case col of None \<Rightarrow> p1 | Some h \<Rightarrow> if h = [] then p1 else p1\<lparr>color := h\<rparr>);
            w1 = w\<lparr>cube := Some c2, particles := Some p2\<rparr>
        in if drawThrows w1 then (Some RenderError, w1)
           else (None, requestAnimationFrame w1))"

text \<open>\<^verbatim>\<open>Object.assign(config, options)\<close>: every key of the options replaces the value.\<close>

definition Object_assign :: "config \<Rightarrow> options \<Rightarrow> config" where
  "Object_assign c opts =
     \<lparr>cfg_progress = (case opt_progress opts of None \<Rightarrow> cfg_progress c | Some v \<Rightarrow> v),
      cfg_currentPhase = (case opt_currentPhase opts of None \<Rightarrow> cfg_currentPhase c | Some v \<Rightarrow> v),
      cfg_phaseColors = (case opt_phaseColors opts of None \<Rightarrow> cfg_phaseColors c | Some v \<Rightarrow> v)\<rparr>"

definition updateScene :: "options \<Rightarrow> world \<Rightarrow> bool \<times> world" where
  "updateScene opts w =
     (if \<not> isInitialized w then (False, w)
      else (True, w\<lparr>config := Object_assign (config w) opts\<rparr>))"

subsection \<open>Teardown\<close>

text \<open>A run of statements ends at the first one that throws.\<close>

type_synonym stmt = "world \<Rightarrow> exn option \<times> world"

definition andThen :: "stmt \<Rightarrow> stmt \<Rightarrow> stmt" where
  "andThen f g w = (case f w of (None, w1) \<Rightarrow> g w1 | (Some e, w1) \<Rightarrow> (Some e, w1))"

definition cancelPending :: stmt where
  "cancelPending w =
     (case animationId w of None \<Rightarrow> (None, w)
      | Some i \<Rightarrow> (None, (cancelAnimationFrame i w)\<lparr>animationId := None\<rparr>))"

definition dispose :: "nat \<Rightarrow> world \<Rightarrow> world" where
  "dispose b w = w\<lparr>liveBuffers := removeAll b (liveBuffers w)\<rparr>"

text \<open>\<^verbatim>\<open>scene.remove(x)\<close>; on a scene variable that is not set it is a type error.\<close>

definition scene_remove :: "nat \<Rightarrow> stmt" where
  "scene_remove x w =
     (case scene w of None \<Rightarrow> (Some TypeError, w)
      | Some kids \<Rightarrow> (None, w\<lparr>scene := Some (remove1 x kids)\<rparr>))"

definition releaseCube :: stmt where
  "releaseCube w =
     (case cube w of None \<Rightarrow> (None, w)
      | Some c \<Rightarrow>
          andThen (scene_remove (oid c)) (\<lambda>w1. (None, w1\<lparr>cube := None\<rparr>))
            (dispose (material c) (dispose (geometry c) w)))"

definition releaseParticles :: stmt where
  "releaseParticles w =
     (case particles w of None \<Rightarrow> (None, w)
      | Some p \<Rightarrow>
          andThen (scene_remove (oid p)) (\<lambda>w1. (None, w1\<lparr>particles := None\<rparr>))
            (dispose (material p) (dispose (geometry p) w)))"

text \<open>
  An element leaves its parent, whichever container that is. An element is the child of
  at most one parent and occurs there once.
\<close>

definition detach :: "nat \<Rightarrow> (string \<times> nat list) list \<Rightarrow> (string \<times> nat list) list" where
  "detach e doc = map (\<lambda>(k, kids). (k, removeAll e kids)) doc"

definition parentElement :: "nat \<Rightarrow> (string \<times> nat list) list \<Rightarrow> string option" where
  "parentElement e doc = map_option fst (find (\<lambda>(k, kids). e \<in> set kids) doc)"

definition releaseRenderer :: stmt where
  "releaseRenderer w =
     (case renderer w of None \<Rightarrow> (None, w)
      | Some r \<Rightarrow>
          (None, w\<lparr>liveRenderers := removeAll (rid r) (liveRenderers w),
                   document := detach (domElement r) (document w),
                   renderer := None\<rparr>))"

text \<open>The loop empties the scene object, which is then dropped.\<close>

definition clearScene :: stmt where
  "clearScene w = (None, w\<lparr>scene := None\<rparr>)"

text \<open>
  The last statement names \<^verbatim>\<open>handleResize\<close>. Inside \<^verbatim>\<open>cleanupScene\<close> that name is
  the function declared at module level, not the closure \<^verbatim>\<open>initScene\<close> subscribed.
\<close>

definition cleanupScene :: stmt where
  "cleanupScene w =
     (if \<not> isInitialized w then (None, w)
      else
        andThen cancelPending (andThen releaseCube (andThen releaseParticles
          (andThen releaseRenderer (andThen clearScene
            (\<lambda>w1. (None, w1\<lparr>camera := None, isInitialized := False,
                              listeners := remove1 ModuleHandleResize (listeners w1)\<rparr>)))))) w)"

subsection \<open>Setup\<close>

definition set_children :: "string \<Rightarrow> nat list \<Rightarrow> (string \<times> nat list) list \<Rightarrow> (string \<times> nat list) list" where
  "set_children cid kids doc = map (\<lambda>(k, old). if k = cid then (k, kids) else (k, old)) doc"

text \<open>
  Everything \<^verbatim>\<open>initScene\<close> creates once the container is found, numbered from
  \<open>fresh\<close>: renderer, its canvas, three lights, the cube's geometry, material and
  mesh, the same three for the particles, and the resize closure. The container loses
  its children and receives the canvas.
\<close>

definition build :: "string \<Rightarrow> world \<Rightarrow> world" where
  "build containerId w =
     (let n = fresh w; cw = fst (client w containerId); ch = snd (client w containerId) in
      w\<lparr>scene := Some [n + 2, n + 3, n + 4, n + 7, n + 10],
        camera := Some \<lparr>fov = 75, aspect = js_div cw ch, position_z = 5\<rparr>,
        renderer := Some \<lparr>rid = n, domElement = n + 1, r_size = (cw, ch),
                          pixelRatio = devicePixelRatio w\<rparr>,
        cube := Some \<lparr>oid = n + 7, geometry = n + 5, material = n + 6, rotation_x = 0,
                      rotation_y = 0, m_scale = (1, 1, 1), color = ''#0ea5e9''\<rparr>,
        particles := Some \<lparr>oid = n + 10, geometry = n + 8, material = n + 9, rotation_x = 0,
                           rotation_y = 0, m_scale = (1, 1, 1), color = ''#38bdf8''\<rparr>,
        document := set_children containerId [n + 1] (document w),
        listeners := listeners w @ [InitClosure (n + 11) containerId],
        liveRenderers := liveRenderers w @ [n],
        liveBuffers := liveBuffers w @ [n + 5, n + 6, n + 8, n + 9],
        fresh := n + 12\<rparr>)"

definition initScene :: "string \<Rightarrow> world \<Rightarrow> (exn + bool) \<times> world" where
  "initScene containerId w0 =
     (case (if isInitialized w0 then cleanupScene w0 else (None, w0)) of
        (Some e, w) \<Rightarrow> (Inl e, w)
      | (None, w) \<Rightarrow>
          (case map_of (document w) containerId of
             None \<Rightarrow>
               (Inr False,
                w\<lparr>console := console w @ [''Container with ID '' @ [CHR 0x22] @ containerId @ [CHR 0x22] @ '' not found'']\<rparr>)
           | Some kids \<Rightarrow>
               (case animate (build containerId w) of
                  (Some e, w1) \<Rightarrow> (Inl e, w1)
                | (None, w1) \<Rightarrow> (Inr True, w1\<lparr>isInitialized := True\<rparr>))))"

subsection \<open>Resize listeners\<close>

definition resize_to :: "nat \<times> nat \<Rightarrow> world \<Rightarrow> world" where
  "resize_to d w =
     w\<lparr>camera := map_option (\<lambda>c. c\<lparr>aspect := js_div (fst d) (snd d)\<rparr>) (camera w),
       renderer := map_option (\<lambda>r. r\<lparr>r_size := d\<rparr>) (renderer w)\<rparr>"

text \<open>
  The closure of \<^verbatim>\<open>initScene\<close>. Its only guard is on the captured container, which
  is always there; camera and renderer are read from the module variables unguarded.
\<close>

definition handleResize_closure :: "string \<Rightarrow> stmt" where
  "handleResize_closure containerId w =
     (case camera w of None \<Rightarrow> (Some TypeError, w)
      | Some c \<Rightarrow>
          (let d = client w containerId;
               w1 = w\<lparr>camera := Some (c\<lparr>aspect := js_div (fst d) (snd d)\<rparr>)\<rparr>
           in case renderer w1 of None \<Rightarrow> (Some TypeError, w1)
              | Some r \<Rightarrow> (None, w1\<lparr>renderer := Some (r\<lparr>r_size := d\<rparr>)\<rparr>)))"

text \<open>The function at module level, guarded, which nothing ever subscribes.\<close>

definition handleResize :: stmt where
  "handleResize w =
     (if camera w = None \<or> renderer w = None then (None, w)
      else case parentElement (domElement (the (renderer w))) (document w) of
             None \<Rightarrow> (None, w)
           | Some containerId \<Rightarrow> (None, resize_to (client w containerId) w))"

fun call_listener :: "listener \<Rightarrow> stmt" where
  "call_listener (InitClosure k containerId) w = handleResize_closure containerId w"
| "call_listener ModuleHandleResize w = handleResize w"

text \<open>
  A resize event runs every subscribed listener in order of subscription; what a
  listener throws is reported to the page and does not stop the others.
\<close>

fun dispatch :: "listener list \<Rightarrow> world \<Rightarrow> exn list \<times> world" where
  "dispatch [] w = ([], w)"
| "dispatch (l # ls) w =
     (case call_listener l w of
        (r, w1) \<Rightarrow>
          (case dispatch ls w1 of
             (es, w2) \<Rightarrow> ((case r of None \<Rightarrow> [] | Some e \<Rightarrow> [e]) @ es, w2)))"

definition resize_event :: "world \<Rightarrow> exn list \<times> world" where
  "resize_event w = dispatch (listeners w) w"

text \<open>The browser runs the oldest pending frame request.\<close>

definition next_frame :: stmt where
  "next_frame w = (case frames w of [] \<Rightarrow> (None, w) | i # rest \<Rightarrow> animate (w\<lparr>frames := rest\<rparr>))"

subsection \<open>Calls and events in sequence\<close>

datatype call =
  InitScene string | CleanupScene | UpdateScene options | NextFrame | ResizeEvent string nat nat

text \<open>
  A caller that goes on after an exception, as the page does. A resize event comes with
  the new client size of one container.
\<close>

fun perform :: "call \<Rightarrow> world \<Rightarrow> world" where
  "perform (InitScene containerId) w = snd (initScene containerId w)"
| "perform CleanupScene w = snd (cleanupScene w)"
| "perform (UpdateScene opts) w = snd (updateScene opts w)"
| "perform NextFrame w = snd (next_frame w)"
| "perform (ResizeEvent containerId cw ch) w =
     snd (resize_event (w\<lparr>client := (client w)(containerId := (cw, ch))\<rparr>))"

fun run :: "call list \<Rightarrow> world \<Rightarrow> world" where
  "run [] w = w"
| "run (c # cs) w = run cs (perform c w)"

text \<open>
  What holds between calls when draw calls succeed. An initialised module owns one
  renderer, the four buffers of cube and particles, and one pending frame request, the
  one \<^verbatim>\<open>animationId\<close> names; a module that is not initialised owns none of these.
\<close>

definition consistent :: "world \<Rightarrow> bool" where
  "consistent w \<longleftrightarrow>
     \<not> drawThrows w \<and>
     (if isInitialized w
      then scene w \<noteq> None \<and> camera w \<noteq> None \<and> renderer w \<noteq> None \<and>
           cube w \<noteq> None \<and> particles w \<noteq> None \<and> animationId w \<noteq> None \<and>
           liveRenderers w = [rid (the (renderer w))] \<and>
           set (liveBuffers w) \<subseteq>
             {geometry (the (cube w)), material (the (cube w)),
              geometry (the (particles w)), material (the (particles w))} \<and>
           frames w = [the (animationId w)]
      else liveRenderers w = [] \<and> liveBuffers w = [] \<and> frames w = [])"

text \<open>A page with one empty container of 800 by 600 pixels, and a working draw call.\<close>

definition page :: world where
  "page = loaded [(''hero'', [])] (\<lambda>_. (800, 600)) False"

text \<open>That page after \<^verbatim>\<open>initScene('hero')\<close>, and after \<^verbatim>\<open>cleanupScene()\<close> as well.\<close>

definition mounted :: world where
  "mounted = snd (initScene ''hero'' page)"

definition unmounted :: world where
  "unmounted = snd (cleanupScene mounted)"

text \<open>The same page where the draw call throws, after \<^verbatim>\<open>initScene('hero')\<close>.\<close>

definition halfBuilt :: world where
  "halfBuilt = snd (initScene ''hero'' (page\<lparr>drawThrows := True\<rparr>))"

section \<open>The render loop of the scroll journey\<close>

text \<open>
  \<^verbatim>\<open>DataProtectionJourney\<close> keeps canvas, scene, camera and renderer in refs (here:
  whether each is set) and turns three groups in its frame callback. A frame id is
  truthy when it is set and not zero.
\<close>

record Group =
  rotation :: vec3
  visible :: bool

record journey =
  canvasRef :: bool
  sceneRef :: bool
  cameraRef :: bool
  rendererRef :: bool
  dataGroupRef :: "Group option"
  shredGroupRef :: "Group option"
  secureGroupRef :: "Group option"
  animationFrameRef :: "nat option"
  pendingFrames :: "nat list"
  nextFrameId :: nat
  errorLog :: "string list"
  renderThrows :: bool

definition turn :: "vec3 \<Rightarrow> Group \<Rightarrow> Group" where
  "turn d g =
     g\<lparr>rotation := (fst (rotation g) + fst d, fst (snd (rotation g)) + fst (snd d),
                     snd (snd (rotation g)) + snd (snd d))\<rparr>"

definition truthy :: "nat option \<Rightarrow> bool" where
  "truthy r = (case r of None \<Rightarrow> False | Some i \<Rightarrow> i \<noteq> 0)"

text \<open>
  The callback leaves when a ref is missing. Inside \<^verbatim>\<open>try\<close> it turns the data group,
  the shred group if visible, and the secure group, draws, and asks for the next
  frame while the canvas is there. \<^verbatim>\<open>catch\<close> logs the error and cancels and clears
  the stored frame id.
\<close>

definition journey_animate :: "journey \<Rightarrow> journey" where
  "journey_animate j =
     (if \<not> canvasRef j \<or> \<not> sceneRef j \<or> \<not> cameraRef j \<or> \<not> rendererRef j then j
      else
        let j1 = j\<lparr>dataGroupRef := map_option (turn (0.0005, 0.002, 0)) (dataGroupRef j),
                   shredGroupRef :=
                     map_option (\<lambda>g. if visible g then turn (0, 0.003, 0.0007) g else g)
                       (shredGroupRef j),
                   secureGroupRef := map_option (turn (0, 0.001, 0.0003)) (secureGroupRef j)\<rparr>
        in if renderThrows j1
           then
             (let j2 = j1\<lparr>errorLog := errorLog j1 @ [''Error in animation loop:'']\<rparr>
              in if truthy (animationFrameRef j2)
                 then j2\<lparr>pendingFrames := removeAll (the (animationFrameRef j2)) (pendingFrames j2),
                         animationFrameRef := None\<rparr>
                 else j2)
           else if canvasRef j1
             then j1\<lparr>pendingFrames := pendingFrames j1 @ [nextFrameId j1],
                     animationFrameRef := Some (nextFrameId j1),
                     nextFrameId := Suc (nextFrameId j1)\<rparr>
             else j1)"

text \<open>Every 200 ms an interval restarts the loop when no frame id is stored.\<close>

definition ensureAnimationIsRunning :: "journey \<Rightarrow> journey" where
  "ensureAnimationIsRunning j =
     (if \<not> truthy (animationFrameRef j) \<and> canvasRef j \<and> sceneRef j \<and> cameraRef j \<and> rendererRef j
      then journey_animate j else j)"

text \<open>The browser runs the oldest pending frame request of the journey.\<close>

definition journey_frame :: "journey \<Rightarrow> journey" where
  "journey_frame j =
     (case pendingFrames j of [] \<Rightarrow> j
      | i # rest \<Rightarrow> journey_animate (j\<lparr>pendingFrames := rest\<rparr>))"

text \<open>A mounted journey with one frame pending, whose draw call throws.\<close>

definition broken_journey :: journey where
  "broken_journey =
     \<lparr>canvasRef = True, sceneRef = True, cameraRef = True, rendererRef = True,
      dataGroupRef = Some \<lparr>rotation = (0, 0, 0), visible = True\<rparr>,
      shredGroupRef = Some \<lparr>rotation = (0, 0, 0), visible = False\<rparr>,
      secureGroupRef = Some \<lparr>rotation = (0, 0, 0), visible = True\<rparr>,
      animationFrameRef = Some 1, pendingFrames = [1], nextFrameId = 2, errorLog = [],
      renderThrows = True\<rparr>"

section \<open>The frame callback of the data journey scene\<close>

text \<open>
  \<^verbatim>\<open>DataJourneyScene\<close> of the fiber canvas: refs to the scene group, the data cube,
  the fragments group and the lock, a clock, the progress record that
  \<^verbatim>\<open>updateProgress\<close> maintains, and the random data of the fragments. Material
  colours are not part of the model.
\<close>

record Object3D =
  o_position :: vec3
  o_rotation :: vec3
  o_scale :: vec3
  o_visible :: bool

datatype child = IsMesh Object3D | NotMesh Object3D

record Fragments =
  f_visible :: bool
  f_children :: "child list"

record fragmentData =
  fd_position :: vec3
  fd_scale :: real
  fd_speed :: real

record animationProgress =
  ap_shrink :: real
  ap_shred :: real
  ap_secure :: real
  ap_overall :: real
  ap_currentPhase :: string
  ap_transitionFactor :: real

record journey_scene =
  d_sceneRef :: "Object3D option"
  d_dataRef :: "Object3D option"
  d_fragmentsRef :: "Fragments option"
  d_lockRef :: "Object3D option"
  d_timeRef :: real
  d_animationProgress :: animationProgress
  d_prevProgress :: real
  d_fragmentsData :: "fragmentData list"

definition multiplyScalar :: "real \<Rightarrow> vec3 \<Rightarrow> vec3" where
  "multiplyScalar a v = (fst v * a, fst (snd v) * a, snd (snd v) * a)"

text \<open>\<^verbatim>\<open>v.lerp(t, alpha)\<close> moves \<open>v\<close> towards \<open>t\<close> by the fraction \<open>alpha\<close>.\<close>

definition lerp :: "vec3 \<Rightarrow> vec3 \<Rightarrow> real \<Rightarrow> vec3" where
  "lerp v t a =
     (fst v + (fst t - fst v) * a, fst (snd v) + (fst (snd t) - fst (snd v)) * a,
      snd (snd v) + (snd (snd t) - snd (snd v)) * a)"

text \<open>One fragment of the loop: scatter, spin by the clamped delta, rescale.\<close>

definition update_fragment :: "real \<Rightarrow> animationProgress \<Rightarrow> fragmentData \<Rightarrow> child \<Rightarrow> child" where
  "update_fragment safeDelta ap fd ch =
     (case ch of NotMesh o3 \<Rightarrow> NotMesh o3
      | IsMesh o3 \<Rightarrow>
          (let scatterFactor = min (ap_shred ap * 2) 1;
               targetPos = multiplyScalar (2 * scatterFactor) (fd_position fd);
               targetScale = fd_scale fd * (1 - 0.5 * ap_secure ap);
               r = o_rotation o3
           in IsMesh (o3\<lparr>o_position := lerp (o_position o3) targetPos 0.1,
                          o_rotation := (fst r + safeDelta * fd_speed fd * 0.5,
                                         fst (snd r) + safeDelta * fd_speed fd * 0.7,
                                         snd (snd r) + safeDelta * fd_speed fd * 0.3),
                          o_scale := lerp (o_scale o3) (targetScale, targetScale, targetScale) 0.1\<rparr>)))"

text \<open>\<^verbatim>\<open>children.forEach\<close>, which skips every index beyond the fragment data.\<close>

fun update_fragments :: "(fragmentData \<Rightarrow> child \<Rightarrow> child) \<Rightarrow> child list \<Rightarrow> fragmentData list \<Rightarrow> child list" where
  "update_fragments f [] ds = []"
| "update_fragments f (c # cs) [] = c # cs"
| "update_fragments f (c # cs) (d # ds) = f d c # update_fragments f cs ds"

definition useFrame :: "real \<Rightarrow> journey_scene \<Rightarrow> journey_scene" where
  "useFrame delta s =
     (if d_sceneRef s = None \<or> d_dataRef s = None \<or> d_fragmentsRef s = None \<or> d_lockRef s = None
      then s
      else
        let safeDelta = min delta 0.1;
            time = d_timeRef s + safeDelta;
            ap = d_animationProgress s;
            phase = ap_currentPhase ap;
            sc = the (d_sceneRef s);
            sc1 = sc\<lparr>o_rotation := (fst (o_rotation sc), time * 0.1, snd (snd (o_rotation sc)))\<rparr>;
            dt = the (d_dataRef s);
            dt1 = dt\<lparr>o_visible := (phase = ''intro'' \<or> phase = ''shrink'' \<or>
                         (phase = ''shred'' \<and> ap_transitionFactor ap < 0.7))\<rparr>;
            shrinkScale = 1 - ap_shrink ap * 0.7;
            dt2 = (if o_visible dt1
                   then dt1\<lparr>o_scale := (shrinkScale, shrinkScale, shrinkScale),
                            o_rotation := (time * 0.2, time * 0.3, snd (snd (o_rotation dt1)))\<rparr>
                   else dt1);
            fr = the (d_fragmentsRef s);
            fr1 = fr\<lparr>f_visible := (phase = ''shred'' \<or> phase = ''secure'')\<rparr>;
            fr2 = (if f_visible fr1 \<and> f_children fr1 \<noteq> []
                   then fr1\<lparr>f_children :=
                          update_fragments (update_fragment safeDelta ap) (f_children fr1)
                            (d_fragmentsData s)\<rparr>
                   else fr1);
            lk = the (d_lockRef s);
            lk1 = lk\<lparr>o_visible := (phase = ''secure'')\<rparr>;
            lockScale = 0.3 + ap_secure ap * 0.7;
            pulse = sin (time * 5) * 0.05 * ap_secure ap;
            lk2 = (if o_visible lk1
                   then lk1\<lparr>o_scale := multiplyScalar (1 + pulse) (lockScale, lockScale, lockScale),
                            o_rotation := (fst (o_rotation lk1), time * 0.5, snd (snd (o_rotation lk1)))\<rparr>
                   else lk1)
        in s\<lparr>d_sceneRef := Some sc1, d_dataRef := Some dt2, d_fragmentsRef := Some fr2,
             d_lockRef := Some lk2, d_timeRef := time, d_prevProgress := ap_overall ap\<rparr>)"

text \<open>A scene in the shred phase with one fragment.\<close>

definition shredding :: journey_scene where
  "shredding =
     \<lparr>d_sceneRef = Some \<lparr>o_position = (0, 0, 0), o_rotation = (0, 0, 0), o_scale = (1, 1, 1),
                          o_visible = True\<rparr>,
      d_dataRef = Some \<lparr>o_position = (0, 0, 0), o_rotation = (0, 0, 0), o_scale = (1, 1, 1),
                         o_visible = True\<rparr>,
      d_fragmentsRef = Some \<lparr>f_visible = False, f_children =
        [IsMesh \<lparr>o_position = (0, 0, 0), o_rotation = (0, 0, 0), o_scale = (1, 1, 1),
                 o_visible = True\<rparr>]\<rparr>,
      d_lockRef = Some \<lparr>o_position = (0, 0, 0), o_rotation = (0, 0, 0), o_scale = (1, 1, 1),
                         o_visible = False\<rparr>,
      d_timeRef = 2,
      d_animationProgress = \<lparr>ap_shrink = 1, ap_shred = 0.5, ap_secure = 0, ap_overall = 0.55,
                              ap_currentPhase = ''shred'', ap_transitionFactor = 0.5\<rparr>,
      d_prevProgress = 0.5,
      d_fragmentsData = [\<lparr>fd_position = (0.4, 0, 0), fd_scale = 0.2, fd_speed = 1\<rparr>]\<rparr>"

section \<open>The segments of the master timeline\<close>

text \<open>
  \<^verbatim>\<open>animateObjects\<close> authors the master timeline with \<^verbatim>\<open>tl.set(target, vars, position)\<close>
  and \<^verbatim>\<open>tl.to(target, vars, position)\<close>. A segment is recorded as it is authored:
  the property it drives, the value it leads to, its duration and ease, and the
  timeline offset it is placed at. A child of a group takes part in the fades when it
  is a mesh with a material.
\<close>

datatype node = MeshNode nat | OtherNode

datatype property = opacity nat | visibleFlag string

datatype jsvalue = Number real | Boolean bool

datatype tween =
  tl_set property jsvalue real
| tl_to property jsvalue real string real

fun starts :: "tween \<Rightarrow> real" where
  "starts (tl_set p v pos) = pos"
| "starts (tl_to p v dur e pos) = pos"

fun ends :: "tween \<Rightarrow> real" where
  "ends (tl_set p v pos) = pos"
| "ends (tl_to p v dur e pos) = pos + dur"

text \<open>
  The transition from shrink to shred: every material of the data group fades to 0,
  the data group is hidden and the shred group shown, and every material of the shred
  group is set to 0 and fades to 1.
\<close>

definition fadeOutData :: "node \<Rightarrow> tween list" where
  "fadeOutData ch =
     (case ch of MeshNode m \<Rightarrow> [tl_to (opacity m) (Number 0) 0.3 ''sine.inOut'' 0.38]
      | OtherNode \<Rightarrow> [])"

definition fadeInShred :: "node \<Rightarrow> tween list" where
  "fadeInShred ch =
     (case ch of
        MeshNode m \<Rightarrow>
          [tl_set (opacity m) (Number 0) 0.40,
           tl_to (opacity m) (Number 1) 0.3 ''sine.inOut'' 0.40]
      | OtherNode \<Rightarrow> [])"

definition shrinkToShred :: "node list \<Rightarrow> node list \<Rightarrow> tween list" where
  "shrinkToShred dataChildren shredChildren =
     concat (map fadeOutData dataChildren) @
     [tl_set (visibleFlag ''dataGroup'') (Boolean False) 0.40,
      tl_set (visibleFlag ''shredGroup'') (Boolean True) 0.40] @
     concat (map fadeInShred shredChildren)"

text \<open>
  The transition from shred to secure: every material of the shred group fades to 0
  from an offset between 0.5 and 0.6 drawn at random per child, the shred group is
  hidden at 0.82, and the materials of the secure group fade to 1 from offsets
  staggered by the child's index. The list of random draws holds one number per mesh
  of the shred group, in the order of the children.
\<close>

fun fadeOutShred :: "node list \<Rightarrow> real list \<Rightarrow> tween list" where
  "fadeOutShred [] rs = []"
| "fadeOutShred (OtherNode # cs) rs = fadeOutShred cs rs"
| "fadeOutShred (MeshNode m # cs) [] = []"
| "fadeOutShred (MeshNode m # cs) (r # rs) =
     tl_to (opacity m) (Number 0) 0.5 ''power1.inOut'' (0.5 + r * 0.1) # fadeOutShred cs rs"

fun fadeInSecure :: "nat \<Rightarrow> node list \<Rightarrow> tween list" where
  "fadeInSecure index [] = []"
| "fadeInSecure index (OtherNode # cs) = fadeInSecure (Suc index) cs"
| "fadeInSecure index (MeshNode m # cs) =
     tl_to (opacity m) (Number 1) 0.4 ''power2.inOut'' (0.68 + real (index mod 5) * 0.02)
       # fadeInSecure (Suc index) cs"

definition shredToSecure :: "real list \<Rightarrow> node list \<Rightarrow> node list \<Rightarrow> tween list" where
  "shredToSecure randoms shredChildren secureChildren =
     fadeOutShred shredChildren randoms @
     [tl_set (visibleFlag ''shredGroup'') (Boolean False) 0.82] @
     fadeInSecure 0 secureChildren"

section \<open>The React canvas component\<close>

text \<open>
  \<^verbatim>\<open>SimpleThreeJSCanvas\<close> holds its objects in refs. The resize listener leaves when
  the container element, the camera or the renderer is missing; otherwise it reads the
  client size of the container, stores the quotient as the camera's aspect and resizes
  the renderer. The scene ref is not mentioned in it.
\<close>

record canvas_refs =
  s_canvasRef :: "(nat \<times> nat) option"
  s_cameraRef :: "PerspectiveCamera option"
  s_rendererRef :: "WebGLRenderer option"
  s_sceneRef :: "nat list option"

definition canvas_handleResize :: "canvas_refs \<Rightarrow> canvas_refs" where
  "canvas_handleResize s =
     (if s_canvasRef s = None \<or> s_cameraRef s = None \<or> s_rendererRef s = None then s
      else
        let d = the (s_canvasRef s) in
        s\<lparr>s_cameraRef := Some ((the (s_cameraRef s))\<lparr>aspect := js_div (fst d) (snd d)\<rparr>),
          s_rendererRef := Some ((the (s_rendererRef s))\<lparr>r_size := d\<rparr>)\<rparr>)"

section \<open>The invariant of the standalone renderer\<close>

lemma removeAll_four:
  "set xs \<subseteq> {a, b, c, d} \<Longrightarrow> removeAll d (removeAll c (removeAll b (removeAll a xs))) = []"
proof -
  assume "set xs \<subseteq> {a, b, c, d}"
  then have "set (removeAll d (removeAll c (removeAll b (removeAll a xs)))) = {}"
    by auto
  then show ?thesis by (simp only: set_empty)
qed

lemma cleanupScene_result:
  assumes "isInitialized w" "scene w = Some sc" "cube w = Some c" "particles w = Some p"
    "renderer w = Some r" "animationId w = Some i"
  shows "cleanupScene w =
    (None, w\<lparr>scene := None, camera := None, renderer := None, cube := None, particles := None,
       animationId := None, isInitialized := False,
       document := detach (domElement r) (document w),
       listeners := remove1 ModuleHandleResize (listeners w),
       frames := removeAll i (frames w),
       liveRenderers := removeAll (rid r) (liveRenderers w),
       liveBuffers := removeAll (material p) (removeAll (geometry p)
          (removeAll (material c) (removeAll (geometry c) (liveBuffers w))))\<rparr>)"
  using assms
  by (simp add: cleanupScene_def andThen_def cancelPending_def releaseCube_def
      releaseParticles_def releaseRenderer_def clearScene_def scene_remove_def dispose_def
      cancelAnimationFrame_def)

lemma cleanupScene_consistent:
  assumes "consistent w" "isInitialized w"
  shows "fst (cleanupScene w) = None \<and> consistent (snd (cleanupScene w)) \<and>
    \<not> isInitialized (snd (cleanupScene w))"
proof -
  from assms obtain sc c p r i where s: "scene w = Some sc" "cube w = Some c"
    "particles w = Some p" "renderer w = Some r" "animationId w = Some i"
    by (auto simp: consistent_def)
  from assms s have b: "set (liveBuffers w) \<subseteq> {geometry c, material c, geometry p, material p}"
    and f: "frames w = [i]" and l: "liveRenderers w = [rid r]" and d: "\<not> drawThrows w"
    by (simp_all add: consistent_def)
  show ?thesis
    using removeAll_four [OF b] f l d
    by (simp add: cleanupScene_result [OF assms(2) s] consistent_def)
qed

lemma animate_draws:
  assumes "scene w = Some sc" "camera w = Some cam" "renderer w = Some r" "cube w = Some c"
    "particles w = Some p" "\<not> drawThrows w"
  shows "fst (animate w) = None"
    "scene (snd (animate w)) = scene w" "camera (snd (animate w)) = camera w"
    "renderer (snd (animate w)) = renderer w"
    "isInitialized (snd (animate w)) = isInitialized w"
    "drawThrows (snd (animate w)) = drawThrows w"
    "liveRenderers (snd (animate w)) = liveRenderers w"
    "liveBuffers (snd (animate w)) = liveBuffers w"
    "frames (snd (animate w)) = frames w @ [fresh w]"
    "animationId (snd (animate w)) = Some (fresh w)"
    "\<exists>c'. cube (snd (animate w)) = Some c' \<and> geometry c' = geometry c \<and> material c' = material c"
    "\<exists>p'. particles (snd (animate w)) = Some p' \<and> geometry p' = geometry p \<and> material p' = material p"
  using assms
  by (simp_all add: animate_def Let_def requestAnimationFrame_def split: option.splits)

lemma consistentD:
  assumes "consistent w" "isInitialized w"
  obtains sc cam r c p i where "scene w = Some sc" "camera w = Some cam" "renderer w = Some r"
    "cube w = Some c" "particles w = Some p" "animationId w = Some i"
    "liveRenderers w = [rid r]" "frames w = [i]"
    "set (liveBuffers w) \<subseteq> {geometry c, material c, geometry p, material p}"
  using assms by (auto simp: consistent_def)

lemma consistentI:
  assumes "\<not> drawThrows w" "isInitialized w" "scene w = Some sc" "camera w = Some cam"
    "renderer w = Some r" "cube w = Some c" "particles w = Some p" "animationId w = Some i"
    "liveRenderers w = [rid r]" "frames w = [i]"
    "set (liveBuffers w) \<subseteq> {geometry c, material c, geometry p, material p}"
  shows "consistent w"
  using assms by (simp add: consistent_def)

lemma next_frame_consistent:
  assumes "consistent w"
  shows "consistent (snd (next_frame w))"
proof (cases "isInitialized w")
  case False
  with assms show ?thesis by (simp add: consistent_def next_frame_def)
next
  case True
  from assms True obtain sc cam r c p i where s: "scene w = Some sc" "camera w = Some cam"
    "renderer w = Some r" "cube w = Some c" "particles w = Some p" "animationId w = Some i"
    "liveRenderers w = [rid r]" "frames w = [i]"
    "set (liveBuffers w) \<subseteq> {geometry c, material c, geometry p, material p}"
    by (rule consistentD)
  let ?v = "w\<lparr>frames := []\<rparr>"
  from assms have d: "\<not> drawThrows w" by (simp add: consistent_def)
  have g: "scene ?v = Some sc" "camera ?v = Some cam" "renderer ?v = Some r"
    "cube ?v = Some c" "particles ?v = Some p" "\<not> drawThrows ?v"
    using s d by simp_all
  have n: "next_frame w = animate ?v" using s by (simp add: next_frame_def)
  note a = animate_draws [OF g]
  from a(11) obtain c' where c': "cube (snd (animate ?v)) = Some c'" "geometry c' = geometry c"
    "material c' = material c" by blast
  from a(12) obtain p' where p': "particles (snd (animate ?v)) = Some p'" "geometry p' = geometry p"
    "material p' = material p" by blast
  show ?thesis
    unfolding n
    by (rule consistentI [where c = c' and p = p' and r = r and i = "fresh w"])
      (use a s d True c' p' in simp_all)
qed

lemma updateScene_consistent: "consistent w \<Longrightarrow> consistent (snd (updateScene opts w))"
  by (auto simp: updateScene_def consistent_def)

lemma build_fields:
  "scene (build k w) = Some [fresh w + 2, fresh w + 3, fresh w + 4, fresh w + 7, fresh w + 10]"
  "camera (build k w) =
     Some \<lparr>fov = 75, aspect = js_div (fst (client w k)) (snd (client w k)), position_z = 5\<rparr>"
  "renderer (build k w) =
     Some \<lparr>rid = fresh w, domElement = fresh w + 1, r_size = client w k,
            pixelRatio = devicePixelRatio w\<rparr>"
  "cube (build k w) =
     Some \<lparr>oid = fresh w + 7, geometry = fresh w + 5, material = fresh w + 6, rotation_x = 0,
            rotation_y = 0, m_scale = (1, 1, 1), color = ''#0ea5e9''\<rparr>"
  "particles (build k w) =
     Some \<lparr>oid = fresh w + 10, geometry = fresh w + 8, material = fresh w + 9, rotation_x = 0,
            rotation_y = 0, m_scale = (1, 1, 1), color = ''#38bdf8''\<rparr>"
  "drawThrows (build k w) = drawThrows w"
  "isInitialized (build k w) = isInitialized w"
  "frames (build k w) = frames w"
  "liveRenderers (build k w) = liveRenderers w @ [fresh w]"
  "liveBuffers (build k w) = liveBuffers w @ [fresh w + 5, fresh w + 6, fresh w + 8, fresh w + 9]"
  "fresh (build k w) = fresh w + 12"
  by (simp_all add: build_def Let_def)

lemma initScene_fresh_consistent:
  assumes "consistent w" "\<not> isInitialized w"
  shows "consistent (snd (initScene k w))"
proof (cases "map_of (document w) k")
  case None
  with assms show ?thesis by (simp add: initScene_def consistent_def)
next
  case (Some kids)
  let ?b = "build k w"
  from assms have d: "\<not> drawThrows ?b" by (simp add: consistent_def build_fields)
  note a = animate_draws [OF build_fields(1-5) d]
  from a(11) obtain c' where c': "cube (snd (animate ?b)) = Some c'"
    "geometry c' = fresh w + 5" "material c' = fresh w + 6" by auto
  from a(12) obtain p' where p': "particles (snd (animate ?b)) = Some p'"
    "geometry p' = fresh w + 8" "material p' = fresh w + 9" by auto
  have i: "initScene k w = (Inr True, (snd (animate ?b))\<lparr>isInitialized := True\<rparr>)"
    using assms(2) Some a(1) by (simp add: initScene_def split_beta)
  have e: "liveRenderers w = []" "liveBuffers w = []" "frames w = []"
    using assms by (simp_all add: consistent_def)
  show ?thesis
    unfolding i
    by (rule consistentI [where c = c' and p = p' and i = "fresh w + 12"
          and r = "\<lparr>rid = fresh w, domElement = fresh w + 1, r_size = client w k,
            pixelRatio = devicePixelRatio w\<rparr>"])
      (use a c' p' e d in \<open>simp_all add: build_fields\<close>)
qed

lemma initScene_consistent:
  assumes "consistent w"
  shows "consistent (snd (initScene k w))"
proof (cases "isInitialized w")
  case False
  with assms show ?thesis by (rule initScene_fresh_consistent)
next
  case True
  note t = cleanupScene_consistent [OF assms True]
  have "initScene k w = initScene k (snd (cleanupScene w))"
    using True t by (simp add: initScene_def split_beta)
  with t show ?thesis by (simp add: initScene_fresh_consistent)
qed

lemma call_listener_consistent: "consistent w \<Longrightarrow> consistent (snd (call_listener l w))"
  by (cases l)
    (auto simp: consistent_def handleResize_closure_def handleResize_def resize_to_def Let_def
      split: option.splits)

lemma dispatch_consistent: "consistent w \<Longrightarrow> consistent (snd (dispatch ls w))"
proof (induction ls arbitrary: w)
  case Nil
  then show ?case by simp
next
  case (Cons l ls)
  from Cons.prems have "consistent (snd (call_listener l w))" by (rule call_listener_consistent)
  then have "consistent (snd (dispatch ls (snd (call_listener l w))))" by (rule Cons.IH)
  then show ?case by (simp add: split_beta)
qed

lemma cleanupScene_keeps_consistent: "consistent w \<Longrightarrow> consistent (snd (cleanupScene w))"
  by (cases "isInitialized w") (simp_all add: cleanupScene_consistent, simp add: cleanupScene_def)

lemma perform_consistent: "consistent w \<Longrightarrow> consistent (perform c w)"
proof (cases c)
  case (ResizeEvent k cw ch)
  assume "consistent w"
  then have "consistent (w\<lparr>client := (client w)(k := (cw, ch))\<rparr>)" by (simp add: consistent_def)
  then show ?thesis unfolding ResizeEvent by (simp add: resize_event_def dispatch_consistent)
qed (simp_all add: initScene_consistent cleanupScene_keeps_consistent next_frame_consistent
    updateScene_consistent)

lemma run_consistent: "consistent w \<Longrightarrow> consistent (run cs w)"
  by (induction cs arbitrary: w) (simp_all add: perform_consistent)


text \<open>
  Start from a module that owns what its flag says (the module as loaded is such a
  state) and let every draw call succeed. After any sequence of \<^verbatim>\<open>initScene\<close>,
  \<^verbatim>\<open>cleanupScene\<close>, \<^verbatim>\<open>updateScene\<close>, frames and resize events there is then
  at most one renderer that was created and not disposed, at most one pending frame
  request, and a renderer is alive exactly when the module is initialised. On such a
  path \<^verbatim>\<open>initScene\<close> on an initialised module behaves as \<^verbatim>\<open>initScene\<close> on the
  state \<^verbatim>\<open>cleanupScene\<close> leaves, in which the frame request is cancelled, the
  renderer and all four buffers are disposed, the canvas is in no container, and the
  module variables are cleared. Nothing is said here about the resize listeners.
\<close>

lemma one_renderer_while_draws_succeed:
  assumes "consistent w0"
  shows "length (liveRenderers (run cs w0)) \<le> 1 \<and> length (frames (run cs w0)) \<le> 1 \<and>
    (isInitialized (run cs w0) \<longleftrightarrow> liveRenderers (run cs w0) \<noteq> []) \<and>
    (isInitialized (run cs w0) \<longrightarrow>
       initScene k (run cs w0) = initScene k (snd (cleanupScene (run cs w0))) \<and>
       fst (cleanupScene (run cs w0)) = None \<and>
       frames (snd (cleanupScene (run cs w0))) = [] \<and>
       liveRenderers (snd (cleanupScene (run cs w0))) = [] \<and>
       liveBuffers (snd (cleanupScene (run cs w0))) = [] \<and>
       (\<forall>kids \<in> snd ` set (document (snd (cleanupScene (run cs w0)))).
          domElement (the (renderer (run cs w0))) \<notin> set kids) \<and>
       scene (snd (cleanupScene (run cs w0))) = None \<and>
       camera (snd (cleanupScene (run cs w0))) = None \<and>
       renderer (snd (cleanupScene (run cs w0))) = None \<and>
       cube (snd (cleanupScene (run cs w0))) = None \<and>
       particles (snd (cleanupScene (run cs w0))) = None)"
proof -
  let ?w = "run cs w0"
  have c: "consistent ?w" using assms by (rule run_consistent)
  have first: "length (liveRenderers ?w) \<le> 1 \<and> length (frames ?w) \<le> 1 \<and>
    (isInitialized ?w \<longleftrightarrow> liveRenderers ?w \<noteq> [])"
    using c by (auto simp: consistent_def split: if_splits)
  have second: ?thesis if i: "isInitialized ?w"
  proof -
    from c i obtain sc cam r cb p n where s: "scene ?w = Some sc" "camera ?w = Some cam"
      "renderer ?w = Some r" "cube ?w = Some cb" "particles ?w = Some p" "animationId ?w = Some n"
      "liveRenderers ?w = [rid r]" "frames ?w = [n]"
      "set (liveBuffers ?w) \<subseteq> {geometry cb, material cb, geometry p, material p}"
      by (rule consistentD)
    note res = cleanupScene_result [OF i s(1) s(4) s(5) s(3) s(6)]
    have same: "initScene k ?w = initScene k (snd (cleanupScene ?w))"
      using i by (simp add: initScene_def res)
    show ?thesis
      using first same removeAll_four [OF s(9)] s
      by (simp add: res detach_def image_iff split_beta)
  qed
  show ?thesis
  proof (cases "isInitialized ?w")
    case True
    then show ?thesis by (rule second)
  next
    case False
    with first show ?thesis by simp
  qed
qed

text \<open>The equations that evaluate the standalone renderer on a concrete page.\<close>

lemmas standalone_eval =
  page_def loaded_def mounted_def unmounted_def initScene_def build_def animate_def Let_def
  requestAnimationFrame_def initial_config_def js_div_def set_children_def next_frame_def
  cleanupScene_def andThen_def cancelPending_def releaseCube_def releaseParticles_def
  releaseRenderer_def clearScene_def scene_remove_def dispose_def detach_def
  cancelAnimationFrame_def

section \<open>Properties\<close>

text \<open>
  C1. The phase lookup is total and splits the progress axis into three intervals:
  everything below 0.35 (negative values included) is the shrink phase, everything
  from 0.35 up to but excluding 0.70 is the shred phase, everything from 0.70 on
  (1.0 and larger values included) is the secure phase. Clamping the progress to the
  unit interval first would give the same phase. The six boundary samples of the
  specification come out as stated, and the scroll observer stores the same stage.
\<close>

theorem phaseFor_partition:
  "(currentPhase p = ''shrink'' \<longleftrightarrow> p < 0.35) \<and>
   (currentPhase p = ''shred'' \<longleftrightarrow> 0.35 \<le> p \<and> p < 0.70) \<and>
   (currentPhase p = ''secure'' \<longleftrightarrow> 0.70 \<le> p) \<and>
   currentStage (onUpdate p u) = currentPhase p \<and>
   currentPhase (max 0 (min 1 p)) = currentPhase p \<and>
   currentPhase 0.0 = ''shrink'' \<and> currentPhase 0.34 = ''shrink'' \<and>
   currentPhase 0.35 = ''shred'' \<and> currentPhase 0.69 = ''shred'' \<and>
   currentPhase 0.70 = ''secure'' \<and> currentPhase 1.0 = ''secure''"
proof -
  have below: "max 0 (min 1 p) < 0.35 \<longleftrightarrow> p < 0.35"
    by (simp add: max_def min_def)
  have middle: "max 0 (min 1 p) < 0.70 \<longleftrightarrow> p < 0.70"
    by (simp add: max_def min_def)
  have clamp: "currentPhase (max 0 (min 1 p)) = currentPhase p"
    unfolding currentPhase_def by (simp only: below middle)
  have intervals: "(currentPhase p = ''shrink'' \<longleftrightarrow> p < 0.35) \<and>
    (currentPhase p = ''shred'' \<longleftrightarrow> 0.35 \<le> p \<and> p < 0.70) \<and>
    (currentPhase p = ''secure'' \<longleftrightarrow> 0.70 \<le> p)"
    by (simp add: currentPhase_def)
  have stage: "currentStage (onUpdate p u) = currentPhase p"
    by (simp add: currentPhase_def onUpdate_def Let_def)
  have samples: "currentPhase 0.0 = ''shrink'' \<and> currentPhase 0.34 = ''shrink'' \<and>
    currentPhase 0.35 = ''shred'' \<and> currentPhase 0.69 = ''shred'' \<and>
    currentPhase 0.70 = ''secure'' \<and> currentPhase 1.0 = ''secure''"
    by (simp add: currentPhase_def)
  from intervals stage clamp samples show ?thesis by blast
qed

theorem phaseFor_partition_witness:
  "currentPhase (-1) = ''shrink'' \<and> currentPhase 0.5 = ''shred'' \<and> currentPhase 2 = ''secure''"
proof -
  have "(-1::real) < 0.35" and "(0.35::real) \<le> 0.5 \<and> (0.5::real) < 0.70" and "(0.70::real) \<le> 2"
    by simp_all
  with phaseFor_partition [of "-1"] phaseFor_partition [of "0.5"] phaseFor_partition [of 2]
  show ?thesis by blast
qed

text \<open>
  C10. \<^verbatim>\<open>updateScene\<close> on a module that is not initialised returns false and
  leaves the whole state, the configuration included, as it was; on an initialised
  module it returns true, and the configuration afterwards is the old one with every
  key of the options overwritten, nothing else being touched.
\<close>

theorem updateScene_atomic:
  "(\<not> isInitialized w \<longrightarrow> updateScene opts w = (False, w)) \<and>
   (isInitialized w \<longrightarrow>
      fst (updateScene opts w) = True \<and>
      snd (updateScene opts w) = w\<lparr>config := Object_assign (config w) opts\<rparr> \<and>
      cfg_progress (config (snd (updateScene opts w))) =
        (case opt_progress opts of None \<Rightarrow> cfg_progress (config w) | Some v \<Rightarrow> v) \<and>
      cfg_currentPhase (config (snd (updateScene opts w))) =
        (case opt_currentPhase opts of None \<Rightarrow> cfg_currentPhase (config w) | Some v \<Rightarrow> v) \<and>
      cfg_phaseColors (config (snd (updateScene opts w))) =
        (case opt_phaseColors opts of None \<Rightarrow> cfg_phaseColors (config w) | Some v \<Rightarrow> v))"
  by (simp add: updateScene_def Object_assign_def)

theorem updateScene_atomic_witness:
  "updateScene \<lparr>opt_progress = Some 0.5, opt_currentPhase = Some ''shred'', opt_phaseColors = None\<rparr>
     (loaded [] (\<lambda>_. (0, 0)) False)
   = (False, loaded [] (\<lambda>_. (0, 0)) False) \<and>
   cfg_progress (config (snd (updateScene
     \<lparr>opt_progress = Some 0.5, opt_currentPhase = Some ''shred'', opt_phaseColors = None\<rparr>
     ((loaded [] (\<lambda>_. (0, 0)) False)\<lparr>isInitialized := True\<rparr>)))) = 0.5"
  using updateScene_atomic
    [of "loaded [] (\<lambda>_. (0, 0)) False"
        "\<lparr>opt_progress = Some 0.5, opt_currentPhase = Some ''shred'', opt_phaseColors = None\<rparr>"]
    updateScene_atomic
    [of "(loaded [] (\<lambda>_. (0, 0)) False)\<lparr>isInitialized := True\<rparr>"
        "\<lparr>opt_progress = Some 0.5, opt_currentPhase = Some ''shred'', opt_phaseColors = None\<rparr>"]
  by (simp add: loaded_def updateScene_def Object_assign_def)

text \<open>
  C8. On a live instance the resize listener stores the quotient of the container's
  client width and height as the camera's aspect (for a height that is not zero, the
  real quotient), gives the renderer that size, and changes nothing else: the scene
  and its children, the cube and the particles are the same objects as before. This
  holds for the listener of the React canvas component and for the closure the
  standalone renderer subscribes.
\<close>

theorem handleResize_frame:
  "(s_canvasRef s = Some (cw, ch) \<and> s_cameraRef s = Some c \<and> s_rendererRef s = Some r \<longrightarrow>
      canvas_handleResize s =
        s\<lparr>s_cameraRef := Some (c\<lparr>aspect := js_div cw ch\<rparr>),
          s_rendererRef := Some (r\<lparr>r_size := (cw, ch)\<rparr>)\<rparr> \<and>
      s_sceneRef (canvas_handleResize s) = s_sceneRef s) \<and>
   (camera w = Some c \<and> renderer w = Some r \<and> client w k = (cw, ch) \<longrightarrow>
      handleResize_closure k w =
        (None, w\<lparr>camera := Some (c\<lparr>aspect := js_div cw ch\<rparr>),
                 renderer := Some (r\<lparr>r_size := (cw, ch)\<rparr>)\<rparr>) \<and>
      scene (snd (handleResize_closure k w)) = scene w \<and>
      cube (snd (handleResize_closure k w)) = cube w \<and>
      particles (snd (handleResize_closure k w)) = particles w) \<and>
   (ch \<noteq> 0 \<longrightarrow> js_div cw ch = Num (real cw / real ch))"
  by (simp add: canvas_handleResize_def handleResize_closure_def Let_def js_div_def)

theorem handleResize_frame_witness:
  "s_sceneRef (canvas_handleResize
      \<lparr>s_canvasRef = Some (1024, 512),
       s_cameraRef = Some \<lparr>fov = 75, aspect = Num 1, position_z = 5\<rparr>,
       s_rendererRef = Some \<lparr>rid = 0, domElement = 1, r_size = (1, 1), pixelRatio = 1\<rparr>,
       s_sceneRef = Some [2, 3, 4, 7, 10]\<rparr>) = Some [2, 3, 4, 7, 10] \<and>
   s_cameraRef (canvas_handleResize
      \<lparr>s_canvasRef = Some (1024, 512),
       s_cameraRef = Some \<lparr>fov = 75, aspect = Num 1, position_z = 5\<rparr>,
       s_rendererRef = Some \<lparr>rid = 0, domElement = 1, r_size = (1, 1), pixelRatio = 1\<rparr>,
       s_sceneRef = Some [2, 3, 4, 7, 10]\<rparr>) =
     Some \<lparr>fov = 75, aspect = Num 2, position_z = 5\<rparr> \<and>
   fst (handleResize_closure ''hero''
      ((loaded [(''hero'', [1])] (\<lambda>_. (1024, 512)) False)
        \<lparr>scene := Some [2, 3, 4, 7, 10],
         camera := Some \<lparr>fov = 75, aspect = Num 1, position_z = 5\<rparr>,
         renderer := Some \<lparr>rid = 0, domElement = 1, r_size = (1, 1), pixelRatio = 1\<rparr>\<rparr>)) = None \<and>
   scene (snd (handleResize_closure ''hero''
      ((loaded [(''hero'', [1])] (\<lambda>_. (1024, 512)) False)
        \<lparr>scene := Some [2, 3, 4, 7, 10],
         camera := Some \<lparr>fov = 75, aspect = Num 1, position_z = 5\<rparr>,
         renderer := Some \<lparr>rid = 0, domElement = 1, r_size = (1, 1), pixelRatio = 1\<rparr>\<rparr>))) =
     Some [2, 3, 4, 7, 10]"
proof -
  let ?c = "\<lparr>fov = 75, aspect = Num 1, position_z = 5\<rparr>"
  let ?r = "\<lparr>rid = 0, domElement = 1, r_size = (1, 1), pixelRatio = 1\<rparr>"
  let ?s = "\<lparr>s_canvasRef = Some (1024, 512), s_cameraRef = Some ?c, s_rendererRef = Some ?r,
             s_sceneRef = Some [2, 3, 4, 7, 10]\<rparr>"
  let ?w = "(loaded [(''hero'', [1])] (\<lambda>_. (1024, 512)) False)
              \<lparr>scene := Some [2, 3, 4, 7, 10], camera := Some ?c, renderer := Some ?r\<rparr>"
  have h1: "s_canvasRef ?s = Some (1024, 512) \<and> s_cameraRef ?s = Some ?c \<and> s_rendererRef ?s = Some ?r"
    by simp
  have h2: "camera ?w = Some ?c \<and> renderer ?w = Some ?r \<and> client ?w ''hero'' = (1024, 512)"
    by (simp add: loaded_def)
  note t = handleResize_frame [of ?s 1024 512 ?c ?r ?w "''hero''"]
  from t h1 have a: "canvas_handleResize ?s =
      ?s\<lparr>s_cameraRef := Some (?c\<lparr>aspect := js_div 1024 512\<rparr>),
         s_rendererRef := Some (?r\<lparr>r_size := (1024, 512)\<rparr>)\<rparr>" by blast
  from t h2 have b: "handleResize_closure ''hero'' ?w =
      (None, ?w\<lparr>camera := Some (?c\<lparr>aspect := js_div 1024 512\<rparr>),
                renderer := Some (?r\<lparr>r_size := (1024, 512)\<rparr>)\<rparr>)" by blast
  show ?thesis
    unfolding a b by (simp add: js_div_def loaded_def)
qed

text \<open>
  C7. \<^verbatim>\<open>initScene\<close> tears the previous instance down only when the flag
  \<^verbatim>\<open>isInitialized\<close> is set, and it sets the flag after the first call of
  \<^verbatim>\<open>animate\<close>. On the page with one container, let that first draw throw: the
  exception leaves \<^verbatim>\<open>initScene\<close> with the renderer created and the flag not set.
  The next \<^verbatim>\<open>initScene\<close> then skips the teardown and creates a second renderer
  beside the first, whether its own draw throws again or succeeds, and
  \<^verbatim>\<open>cleanupScene\<close> either does nothing or disposes the second renderer only. Even
  with draws that succeed, a second \<^verbatim>\<open>initScene\<close> leaves the resize closure of the
  first instance subscribed beside its own.
\<close>

theorem initScene_after_failed_draw:
  "fst (initScene ''hero'' (page\<lparr>drawThrows := True\<rparr>)) = Inl RenderError \<and>
   isInitialized halfBuilt = False \<and>
   liveRenderers halfBuilt = [0] \<and>
   liveRenderers (run [InitScene ''hero''] halfBuilt) = [0, 12] \<and>
   isInitialized (run [InitScene ''hero''] halfBuilt) = False \<and>
   liveRenderers (run [InitScene ''hero'', CleanupScene] halfBuilt) = [0, 12] \<and>
   isInitialized (run [InitScene ''hero''] (halfBuilt\<lparr>drawThrows := False\<rparr>)) = True \<and>
   liveRenderers (run [InitScene ''hero''] (halfBuilt\<lparr>drawThrows := False\<rparr>)) = [0, 12] \<and>
   liveRenderers (run [InitScene ''hero'', CleanupScene] (halfBuilt\<lparr>drawThrows := False\<rparr>)) = [0] \<and>
   listeners (run [InitScene ''hero'', InitScene ''hero''] page) =
     [InitClosure 11 ''hero'', InitClosure 24 ''hero'']"
  by (simp add: standalone_eval halfBuilt_def)

text \<open>
  C2. On the page with one container, \<^verbatim>\<open>initScene\<close> followed by \<^verbatim>\<open>cleanupScene\<close>
  leaves no pending frame request, and the frame callback and \<^verbatim>\<open>updateScene\<close> do
  nothing afterwards. The resize closure of \<^verbatim>\<open>initScene\<close>, however, is still
  subscribed, and a resize event that reaches it ends in a type error.
\<close>

theorem cleanupScene_leaves_listener:
  "fst (initScene ''hero'' page) = Inr True \<and>
   listeners mounted = [InitClosure 11 ''hero''] \<and>
   fst (cleanupScene mounted) = None \<and>
   frames unmounted = [] \<and>
   animate unmounted = (None, unmounted) \<and>
   updateScene opts unmounted = (False, unmounted) \<and>
   listeners unmounted = [InitClosure 11 ''hero''] \<and>
   resize_event unmounted = ([TypeError], unmounted)"
  by (simp add: standalone_eval updateScene_def resize_event_def handleResize_closure_def)

text \<open>
  C6. When the draw call throws, the frame callback of the standalone renderer lets the
  exception out and logs nothing; it does not ask for another frame. The callback of
  the scroll journey catches the exception, logs it and clears its frame id, after
  which the interval that watches the loop runs the callback again, so that a draw
  call that keeps throwing is logged once per tick.
\<close>

theorem animate_lets_exception_out:
  "fst (next_frame (mounted\<lparr>drawThrows := True\<rparr>)) = Some RenderError \<and>
   console (snd (next_frame (mounted\<lparr>drawThrows := True\<rparr>))) = [] \<and>
   frames (snd (next_frame (mounted\<lparr>drawThrows := True\<rparr>))) = [] \<and>
   errorLog (journey_frame broken_journey) = [''Error in animation loop:''] \<and>
   pendingFrames (journey_frame broken_journey) = [] \<and>
   animationFrameRef (journey_frame broken_journey) = None \<and>
   errorLog (ensureAnimationIsRunning (journey_frame broken_journey)) =
     [''Error in animation loop:'', ''Error in animation loop:'']"
  by (simp add: standalone_eval journey_frame_def journey_animate_def broken_journey_def
      ensureAnimationIsRunning_def truthy_def turn_def)

text \<open>
  C9. The frame callback of the data journey scene uses the frame delta only through
  its minimum with 0.1: the callback with delta \<open>d\<close> does exactly what it does with
  \<open>min d 0.1\<close>. When its four refs are set, the clock advances by \<open>min d 0.1\<close>, which
  is at most 0.1, and the scene's idle rotation is computed from that clock.
\<close>

theorem safeDelta_clamps:
  "useFrame d s = useFrame (min d 0.1) s \<and>
   (d_sceneRef s \<noteq> None \<and> d_dataRef s \<noteq> None \<and> d_fragmentsRef s \<noteq> None \<and> d_lockRef s \<noteq> None \<longrightarrow>
      d_timeRef (useFrame d s) = d_timeRef s + min d 0.1 \<and>
      d_timeRef (useFrame d s) - d_timeRef s \<le> 0.1 \<and>
      fst (snd (o_rotation (the (d_sceneRef (useFrame d s))))) = (d_timeRef s + min d 0.1) * 0.1)"
proof -
  have m: "min d 0.1 \<le> (0.1::real)" by (rule min.cobounded2)
  show ?thesis using m by (simp add: useFrame_def Let_def)
qed

theorem safeDelta_clamps_witness:
  "d_sceneRef shredding \<noteq> None \<and> d_dataRef shredding \<noteq> None \<and>
   d_fragmentsRef shredding \<noteq> None \<and> d_lockRef shredding \<noteq> None \<and>
   d_timeRef (useFrame 5 shredding) = 2.1"
proof -
  have h: "d_sceneRef shredding \<noteq> None \<and> d_dataRef shredding \<noteq> None \<and>
    d_fragmentsRef shredding \<noteq> None \<and> d_lockRef shredding \<noteq> None"
    by (simp add: shredding_def)
  have t: "d_timeRef shredding = 2" by (simp add: shredding_def)
  from safeDelta_clamps [of 5 shredding] h
  have "d_timeRef (useFrame 5 shredding) = d_timeRef shredding + min 5 0.1" by blast
  with h t show ?thesis by simp
qed

text \<open>
  C3. With one mesh in the data group and one in the shred group, the fade-out of the
  data material is authored from 0.38 to 0.68, while the data group is hidden and the
  shred material starts to fade in at 0.40: the outgoing fade does not end at the
  offset where the incoming one starts, and the outgoing group is hidden 0.28 before
  its fade ends. In the second transition the shred material fades out from 0.5 to
  1.0 (for a random draw of 0), the group is hidden at 0.82, and the secure material
  fades in from 0.68.
\<close>

theorem shrinkToShred_fades:
  "shrinkToShred [MeshNode 1] [MeshNode 2] =
     [tl_to (opacity 1) (Number 0) 0.3 ''sine.inOut'' 0.38,
      tl_set (visibleFlag ''dataGroup'') (Boolean False) 0.40,
      tl_set (visibleFlag ''shredGroup'') (Boolean True) 0.40,
      tl_set (opacity 2) (Number 0) 0.40,
      tl_to (opacity 2) (Number 1) 0.3 ''sine.inOut'' 0.40] \<and>
   map ends (shrinkToShred [MeshNode 1] [MeshNode 2]) = [0.68, 0.40, 0.40, 0.40, 0.70] \<and>
   map starts (shrinkToShred [MeshNode 1] [MeshNode 2]) = [0.38, 0.40, 0.40, 0.40, 0.40] \<and>
   ends (hd (shrinkToShred [MeshNode 1] [MeshNode 2])) \<noteq>
     starts (last (shrinkToShred [MeshNode 1] [MeshNode 2])) \<and>
   map starts (shredToSecure [0] [MeshNode 2] [MeshNode 3]) = [0.5, 0.82, 0.68] \<and>
   map ends (shredToSecure [0] [MeshNode 2] [MeshNode 3]) = [1.0, 0.82, 1.08]"
  by (simp add: shrinkToShred_def shredToSecure_def fadeOutData_def fadeInShred_def)

end
